theory Spec2Isabelle
  imports
    Main
    "HOL-Library.Word"
    "HOL-Library.List_Lexorder"
    "HOL-Library.Signed_Division"
begin

unbundle bit_operations_syntax

section \<open>The sql-chain of a database: shallow embedding of the chain source file\<close>

text \<open>
  The development follows the Go source of package \<open>sqlchain\<close> function by function.
  Go's \<open>int32\<close> is a 32-bit word read in two's complement (comparisons are the signed
  \<open><s\<close> and \<open>\<le>s\<close>, arithmetic wraps around), a byte slice is a list of 8-bit words and
  \<open>hash.Hash\<close>, a \<open>[32]byte\<close> array, is a 256-bit word. Byte slices are compared as
  the store compares its keys: lexicographically, bytes unsigned, which is the order of
  lists of words here.
\<close>

type_synonym int32 = "32 word"
type_synonym byte = "8 word"
type_synonym bytes = "byte list"
type_synonym hash = "256 word"
type_synonym node_id = string
type_synonym timestamp = int

subsection \<open>Height keys\<close>

text \<open>
  \<open>heightToKey\<close> allocates four bytes and stores \<open>uint32(h)\<close> big-endian:
  \<open>binary.BigEndian.PutUint32\<close> writes \<open>byte(v >> 24)\<close>, \<open>byte(v >> 16)\<close>,
  \<open>byte(v >> 8)\<close>, \<open>byte(v)\<close>. The conversion \<open>uint32(h)\<close> keeps the bits.
\<close>

definition heightToKey :: "int32 \<Rightarrow> bytes" where
  "heightToKey h =
     [ucast (drop_bit 24 h), ucast (drop_bit 16 h), ucast (drop_bit 8 h), ucast h]"

text \<open>
  \<open>keyToHeight\<close> reads \<open>binary.BigEndian.Uint32(k)\<close>, which indexes \<open>k[3]\<close> first and
  panics on a slice shorter than four bytes (\<open>None\<close> here); longer slices are read on
  their first four bytes.
\<close>

fun keyToHeight :: "bytes \<Rightarrow> int32 option" where
  "keyToHeight (b0 # b1 # b2 # b3 # _) =
     Some (ucast b3 OR push_bit 8 (ucast b2) OR push_bit 16 (ucast b1)
           OR push_bit 24 (ucast b0))"
| "keyToHeight _ = None"

subsection \<open>Errors\<close>

text \<open>
  The error values of the package, the errors of its collaborators (decoding, signature
  verification, remote calls, the store) and the run-time panics of Go that the source
  can reach. A function that returns \<open>err error\<close> returns an \<open>error option\<close> here
  (\<open>None\<close> is \<open>nil\<close>).
\<close>

datatype error =
    ErrInvalidBlock
  | ErrUnknownProducer
  | ErrInvalidProducer
  | ErrParentNotFound
  | ErrQueryExpired
  | ErrQueryNotCached
  | ErrDecode
  | ErrVerify
  | ErrRPC
  | ErrBucketExists
  | ErrBucketNameRequired
  | ErrIncompatibleValue
  | ErrCommit
  | PanicDivideByZero
  | PanicNilDereference
  | PanicIndexOutOfRange

subsection \<open>Blocks, responses and acknowledgements\<close>

record header =
  Version :: "32 word"
  Producer :: node_id
  GenesisHash :: hash
  ParentHash :: hash
  MerkleRoot :: hash
  Timestamp :: timestamp

record signed_header = header +
  BlockHash :: hash
  Signee :: bytes
  Signature :: bytes

record block =
  SignedHeader :: signed_header
  Queries :: "hash list"

text \<open>
  Of a signed response header the chain reads \<open>resp.Request.Timestamp\<close>,
  \<open>resp.Timestamp\<close> and \<open>resp.HeaderHash\<close>; of a signed ack header it reads
  \<open>ack.SignedResponseHeader()\<close> and \<open>ack.HeaderHash\<close>.
\<close>

record signed_response_header =
  RequestTimestamp :: timestamp
  ResponseTimestamp :: timestamp
  ResponseHash :: hash

record signed_ack_header =
  Response :: signed_response_header
  AckTimestamp :: timestamp
  AckHash :: hash

text \<open>The zero value \<open>&wt.SignedAckHeader{}\<close> a decoder is handed.\<close>

definition zeroAck :: signed_ack_header where
  "zeroAck = \<lparr>Response = \<lparr>RequestTimestamp = 0, ResponseTimestamp = 0, ResponseHash = 0\<rparr>,
              AckTimestamp = 0, AckHash = 0\<rparr>"

subsection \<open>Block nodes, the persistent state and the block index\<close>

text \<open>
  Modelled from the spec: the type \<open>blockNode\<close> and its functions \<open>newBlockNode\<close>,
  \<open>initBlockNode\<close>, \<open>indexKey\<close> and \<open>ancestor\<close> are not in the source file. A node
  carries its height, the hash of its block, the block and its parent (a pointer, \<open>nil\<close> for
  a root); its key in the block bucket is its hash; \<open>ancestor\<close> follows parents until a
  node of the asked height or the root is reached.
\<close>

datatype blockNode =
  BlockNode (node_height: int32) (node_hash: hash) (node_block: block)
            (node_parent: "blockNode option")

definition newBlockNode :: "int32 \<Rightarrow> block \<Rightarrow> blockNode option \<Rightarrow> blockNode" where
  "newBlockNode h b p = BlockNode h (BlockHash (SignedHeader b)) b p"

definition initBlockNode :: "int32 \<Rightarrow> block \<Rightarrow> blockNode option \<Rightarrow> blockNode" where
  "initBlockNode h b p = BlockNode h (BlockHash (SignedHeader b)) b p"

definition indexKey :: "blockNode \<Rightarrow> hash" where
  "indexKey n = node_hash n"


text \<open>
  The nodes on the path from a node back to its root: the main chain when the node is the
  head.
\<close>

fun pathToRoot :: "blockNode \<Rightarrow> blockNode list" where
  "pathToRoot (BlockNode h k b p) =
     BlockNode h k b p # (case p of None \<Rightarrow> [] | Some q \<Rightarrow> pathToRoot q)"

text \<open>
  The struct \<open>state\<close>: \<open>node\<close> is the in-memory pointer to the head node, \<open>Head\<close> and
  \<open>Height\<close> are what is written to disk.
\<close>

record state =
  node :: "blockNode option"
  Head :: hash
  Height :: int32

text \<open>
  Modelled from the spec: the block index (\<open>newBlockIndex\<close>, \<open>addBlock\<close>,
  \<open>lookupNode\<close>) is not in the source file; it is an in-memory map from block hash to
  node.
\<close>

type_synonym blockIndex = "hash \<rightharpoonup> blockNode"

definition newBlockIndex :: blockIndex where
  "newBlockIndex = Map.empty"

definition addBlock :: "blockIndex \<Rightarrow> blockNode \<Rightarrow> blockIndex" where
  "addBlock ix n = ix(node_hash n \<mapsto> n)"

definition lookupNode :: "blockIndex \<Rightarrow> hash \<Rightarrow> blockNode option" where
  "lookupNode ix k = ix k"

subsection \<open>The query index\<close>

text \<open>
  Modelled from the spec: the query index (\<open>newQueryIndex\<close>, \<open>addResponse\<close>, \<open>addAck\<close>,
  \<open>getAck\<close>, \<open>checkAckFromBlock\<close>, \<open>setSignedBlock\<close>) is not in the source file. Per
  height it holds a table of responses and a table of acks, each ack with the flag
  "signed into a block"; inserting a duplicate changes nothing; \<open>checkAckFromBlock\<close> is
  true iff the ack is present at the height; \<open>setSignedBlock\<close> marks the acks of the
  block as signed. \<open>getAck\<close> returns the ack held at the height, or \<open>nil\<close> and an error.
\<close>

record height_entry =
  responses :: "hash \<rightharpoonup> signed_response_header"
  acks :: "hash \<rightharpoonup> (signed_ack_header \<times> bool)"

record queryIndex =
  barrier :: int32
  heightIndex :: "int32 \<rightharpoonup> height_entry"

definition newQueryIndex :: queryIndex where
  "newQueryIndex = \<lparr>barrier = 0, heightIndex = Map.empty\<rparr>"

definition ensureEntry :: "queryIndex \<Rightarrow> int32 \<Rightarrow> height_entry" where
  "ensureEntry q h =
     (case heightIndex q h of
        None \<Rightarrow> \<lparr>responses = Map.empty, acks = Map.empty\<rparr>
      | Some en \<Rightarrow> en)"

definition addResponse ::
  "queryIndex \<Rightarrow> int32 \<Rightarrow> signed_response_header \<Rightarrow> error option \<times> queryIndex" where
  "addResponse q h resp =
     (let en = ensureEntry q h;
          en' = (case responses en (ResponseHash resp) of
                   None \<Rightarrow> en\<lparr>responses := (responses en)(ResponseHash resp \<mapsto> resp)\<rparr>
                 | Some _ \<Rightarrow> en)
      in (None, q\<lparr>heightIndex := (heightIndex q)(h \<mapsto> en')\<rparr>))"

definition addAck ::
  "queryIndex \<Rightarrow> int32 \<Rightarrow> signed_ack_header \<Rightarrow> error option \<times> queryIndex" where
  "addAck q h ack =
     (let en = ensureEntry q h;
          en' = (case acks en (AckHash ack) of
                   None \<Rightarrow> en\<lparr>acks := (acks en)(AckHash ack \<mapsto> (ack, False))\<rparr>
                 | Some _ \<Rightarrow> en)
      in (None, q\<lparr>heightIndex := (heightIndex q)(h \<mapsto> en')\<rparr>))"

definition getAck :: "queryIndex \<Rightarrow> int32 \<Rightarrow> hash \<Rightarrow> signed_ack_header option \<times> error option" where
  "getAck q h k =
     (case heightIndex q h of
        None \<Rightarrow> (None, Some ErrQueryNotCached)
      | Some en \<Rightarrow>
          (case acks en k of
             None \<Rightarrow> (None, Some ErrQueryNotCached)
           | Some (a, _) \<Rightarrow> (Some a, None)))"

definition checkAckFromBlock ::
  "queryIndex \<Rightarrow> int32 \<Rightarrow> hash \<Rightarrow> hash \<Rightarrow> bool \<times> error option" where
  "checkAckFromBlock q h blockHash ackHash =
     (case heightIndex q h of
        None \<Rightarrow> (False, None)
      | Some en \<Rightarrow> (acks en ackHash \<noteq> None, None))"

definition setSignedBlock :: "queryIndex \<Rightarrow> int32 \<Rightarrow> block \<Rightarrow> queryIndex" where
  "setSignedBlock q h b =
     (case heightIndex q h of
        None \<Rightarrow> q
      | Some en \<Rightarrow>
          q\<lparr>heightIndex := (heightIndex q)(h \<mapsto>
               en\<lparr>acks := (\<lambda>k. case acks en k of
                                 None \<Rightarrow> None
                               | Some (a, s) \<Rightarrow> Some (a, s \<or> k \<in> set (Queries b)))\<rparr>)\<rparr>)"

subsection \<open>Peers and the runtime\<close>

text \<open>
  Modelled from the spec: \<open>kayak.Peers\<close> and its \<open>Find\<close> are not in the source file. The
  peer set is an ordered list of servers; \<open>Find\<close> returns the index of the first server
  with the given id and whether there is one.
\<close>

record server =
  ID :: node_id

record peers =
  Servers :: "server list"

fun findFrom :: "server list \<Rightarrow> node_id \<Rightarrow> nat \<Rightarrow> int32 \<times> bool" where
  "findFrom [] key i = (0, False)"
| "findFrom (s # ss) key i =
     (if ID s = key then (word_of_nat i, True) else findFrom ss key (Suc i))"

definition Find :: "peers \<Rightarrow> node_id \<Rightarrow> int32 \<times> bool" where
  "Find p key = findFrom (Servers p) key 0"

text \<open>
  Modelled from the spec: the runtime (\<open>newRunTime\<close>, \<open>getHeightFromTime\<close>, \<open>getHead\<close>,
  \<open>setHead\<close>, \<open>setGenesis\<close>, \<open>getPeers\<close>, \<open>getServer\<close>, \<open>getNextTurn\<close>,
  \<open>setNextTurn\<close>, \<open>queryTimeIsExpired\<close>) is not in the source file. It holds the genesis
  time and hash, the period, \<open>queryTTL\<close>, the peers, the own server, the head and the next
  turn. The height of a time is \<open>floor ((t - genesis_time) / period)\<close>, as an int32; a
  query time is expired iff its height is below \<open>head.height - queryTTL\<close>;
  \<open>setNextTurn\<close> advances the next turn by one. Times are instants in nanoseconds, the
  period is a positive number of nanoseconds.
\<close>

record runtime =
  chainInitTime :: timestamp
  genesisHash :: hash
  period :: int
  queryTTL :: int32
  rtPeers :: peers
  rtServer :: server
  head :: state
  nextTurn :: int32

definition getHeightFromTime :: "runtime \<Rightarrow> timestamp \<Rightarrow> int32" where
  "getHeightFromTime r t = word_of_int ((t - chainInitTime r) div period r)"

definition getHead :: "runtime \<Rightarrow> state" where
  "getHead r = head r"

definition setHead :: "runtime \<Rightarrow> state \<Rightarrow> runtime" where
  "setHead r st = r\<lparr>head := st\<rparr>"

definition setGenesis :: "runtime \<Rightarrow> block \<Rightarrow> runtime" where
  "setGenesis r b =
     r\<lparr>chainInitTime := Timestamp (SignedHeader b), genesisHash := BlockHash (SignedHeader b)\<rparr>"

definition getPeers :: "runtime \<Rightarrow> peers" where
  "getPeers r = rtPeers r"



definition setNextTurn :: "runtime \<Rightarrow> runtime" where
  "setNextTurn r = r\<lparr>nextTurn := nextTurn r + 1\<rparr>"

definition queryTimeIsExpired :: "runtime \<Rightarrow> timestamp \<Rightarrow> bool" where
  "queryTimeIsExpired r t \<longleftrightarrow> getHeightFromTime r t <s Height (getHead r) - queryTTL r"

subsection \<open>The binary codec\<close>

text \<open>
  Modelled from the spec: \<open>MarshalBinary\<close> and \<open>UnmarshalBinary\<close> of blocks, states,
  response headers and ack headers are not in the source file. Encoding and decoding are
  inverse to each other, so a stored value is represented by the value it encodes, tagged
  with its kind, and \<open>Raw\<close> stands for bytes that decode as nothing. Of a state only
  \<open>Head\<close> and \<open>Height\<close> are encoded: a decoded state has no node. Decoding a missing
  value (\<open>Get\<close> returned \<open>nil\<close>) fails.
\<close>

datatype encoded =
    EncBlock block
  | EncState hash int32
  | EncResponse signed_response_header
  | EncAck signed_ack_header
  | Raw bytes

definition marshalBlock :: "block \<Rightarrow> error + encoded" where
  "marshalBlock b = Inr (EncBlock b)"

definition marshalState :: "state \<Rightarrow> error + encoded" where
  "marshalState st = Inr (EncState (Head st) (Height st))"

definition marshalResponse :: "signed_response_header \<Rightarrow> error + encoded" where
  "marshalResponse resp = Inr (EncResponse resp)"

definition marshalAck :: "signed_ack_header \<Rightarrow> error + encoded" where
  "marshalAck ack = Inr (EncAck ack)"

fun unmarshalBlock :: "encoded \<Rightarrow> error + block" where
  "unmarshalBlock (EncBlock b) = Inr b"
| "unmarshalBlock _ = Inl ErrDecode"

fun unmarshalState :: "encoded option \<Rightarrow> error + state" where
  "unmarshalState (Some (EncState k h)) = Inr \<lparr>node = None, Head = k, Height = h\<rparr>"
| "unmarshalState _ = Inl ErrDecode"

fun unmarshalResponse :: "encoded \<Rightarrow> error + signed_response_header" where
  "unmarshalResponse (EncResponse resp) = Inr resp"
| "unmarshalResponse _ = Inl ErrDecode"

fun unmarshalAck :: "encoded \<Rightarrow> error + signed_ack_header" where
  "unmarshalAck (EncAck ack) = Inr ack"
| "unmarshalAck _ = Inl ErrDecode"

subsection \<open>The store\<close>

text \<open>
  The store is a bolt database with the fixed layout the chain creates: under the meta
  bucket the state value, the block bucket (block hash to encoded block) and the height
  bucket, which holds per height key a bucket with the request, response and ack buckets.
  A bucket is a list of key/value pairs kept in key order, the order in which \<open>ForEach\<close>
  visits it. On the keys and typed buckets used here \<open>Put\<close> has no failing case (the
  keys are the fixed-size hashes, and no key of a value bucket names a nested bucket); it
  returns a result all the same, so that the error branches of the source stay in place.
  \<open>CreateBucket\<close> fails on an empty name and on a name that exists.
\<close>

type_synonym ('k, 'v) bucket = "('k \<times> 'v) list"

definition Get :: "('k, 'v) bucket \<Rightarrow> 'k \<Rightarrow> 'v option" where
  "Get b k = map_of b k"

fun insertKey :: "'k::linorder \<Rightarrow> 'v \<Rightarrow> ('k, 'v) bucket \<Rightarrow> ('k, 'v) bucket" where
  "insertKey k v [] = [(k, v)]"
| "insertKey k v ((k', v') # kvs) =
     (if k < k' then (k, v) # (k', v') # kvs
      else if k = k' then (k, v) # kvs
      else (k', v') # insertKey k v kvs)"

definition Put :: "('k::linorder, 'v) bucket \<Rightarrow> 'k \<Rightarrow> 'v \<Rightarrow> error + ('k, 'v) bucket" where
  "Put b k v = Inr (insertKey k v b)"

record height_bucket =
  requestIndex :: "(hash, encoded) bucket"
  responseIndex :: "(hash, encoded) bucket"
  ackIndex :: "(hash, encoded) bucket"

record DB =
  stateValue :: "encoded option"
  blockIndexBucket :: "(hash, encoded) bucket"
  heightIndexBucket :: "(bytes, height_bucket) bucket"

definition PutState :: "DB \<Rightarrow> encoded \<Rightarrow> error + DB" where
  "PutState tx v = Inr (tx\<lparr>stateValue := Some v\<rparr>)"

definition CreateBucket ::
  "(bytes, height_bucket) bucket \<Rightarrow> bytes \<Rightarrow> error + (bytes, height_bucket) bucket" where
  "CreateBucket b k =
     (if k = [] then Inl ErrBucketNameRequired
      else if Get b k \<noteq> None then Inl ErrBucketExists
      else Inr (insertKey k \<lparr>requestIndex = [], responseIndex = [], ackIndex = []\<rparr> b))"

subsection \<open>The environment of a chain\<close>

text \<open>
  What the chain calls outside the package is a parameter: the signature checks of blocks,
  headers, responses and acks, the remote call \<open>FetchAckedQuery\<close> to a peer, and whether
  the store commits a transaction (bolt's \<open>Update\<close> returns the error of the commit when
  writing the pages fails).
\<close>

record env =
  verifyAsGenesis :: "block \<Rightarrow> error option"
  verifyHeader :: "signed_header \<Rightarrow> error option"
  verifyBlock :: "block \<Rightarrow> error option"
  verifyResponse :: "signed_response_header \<Rightarrow> error option"
  verifyAck :: "signed_ack_header \<Rightarrow> error option"
  callFetchAckedQuery :: "node_id \<Rightarrow> int32 \<Rightarrow> hash \<Rightarrow> error + signed_ack_header"
  commit :: "DB \<Rightarrow> error option"

subsection \<open>The chain\<close>

text \<open>
  The struct \<open>Chain\<close>, without the RPC caller and the channels: the store and the three
  in-memory parts.
\<close>

record chain =
  db :: DB
  bi :: blockIndex
  qi :: queryIndex
  rt :: runtime

text \<open>
  \<open>db.Update\<close> runs the function on a writable transaction. The function works on the
  transaction's view of the store and may change the memory of the chain. When it returns
  an error the transaction is rolled back; otherwise the transaction is committed, and a
  failing commit rolls back as well and is the error of \<open>Update\<close>. What the function did
  to the memory stays in each case. \<open>db.View\<close> runs a function that only reads.
\<close>

definition Update ::
  "env \<Rightarrow> chain \<Rightarrow> (DB \<Rightarrow> chain \<Rightarrow> error option \<times> DB \<times> chain) \<Rightarrow> error option \<times> chain" where
  "Update e c fn =
     (case fn (db c) c of
        (Some err, tx, m) \<Rightarrow> (Some err, m\<lparr>db := db c\<rparr>)
      | (None, tx, m) \<Rightarrow>
          (case commit e tx of
             Some err \<Rightarrow> (Some err, m\<lparr>db := db c\<rparr>)
           | None \<Rightarrow> (None, m\<lparr>db := tx\<rparr>)))"

subsection \<open>pushBlock\<close>

definition pushBlock :: "env \<Rightarrow> chain \<Rightarrow> block \<Rightarrow> error option \<times> chain" where
  "pushBlock e c b =
     (let h = getHeightFromTime (rt c) (Timestamp (SignedHeader b));
          n = newBlockNode h b (node (getHead (rt c)));
          st = \<lparr>node = Some n, Head = node_hash n, Height = node_height n\<rparr>
      in case marshalBlock b of
           Inl err \<Rightarrow> (Some err, c)
         | Inr encBlock \<Rightarrow>
             (case marshalState st of
                Inl err \<Rightarrow> (Some err, c)
              | Inr encState \<Rightarrow>
                  Update e c (\<lambda>tx m.
                    case PutState tx encState of
                      Inl err \<Rightarrow> (Some err, tx, m)
                    | Inr tx1 \<Rightarrow>
                        (case Put (blockIndexBucket tx1) (indexKey n) encBlock of
                           Inl err \<Rightarrow> (Some err, tx1, m)
                         | Inr bb \<Rightarrow>
                             (None, tx1\<lparr>blockIndexBucket := bb\<rparr>,
                              m\<lparr>rt := setHead (rt m) st,
                                bi := addBlock (bi m) n,
                                qi := setSignedBlock (qi m) h b\<rparr>)))))"

subsection \<open>Pushing responses and acks\<close>

text \<open>
  \<open>ensureHeight\<close> returns the bucket of a height key, creating it with its three buckets
  when it is missing. The Go code returns a reference into the transaction; here the
  transaction is returned with the bucket, and \<open>storeHeight\<close> writes a changed bucket
  back under its key.
\<close>

definition ensureHeight :: "DB \<Rightarrow> bytes \<Rightarrow> error + (DB \<times> height_bucket)" where
  "ensureHeight tx k =
     (case Get (heightIndexBucket tx) k of
        Some hb \<Rightarrow> Inr (tx, hb)
      | None \<Rightarrow>
          (case CreateBucket (heightIndexBucket tx) k of
             Inl err \<Rightarrow> Inl err
           | Inr hs \<Rightarrow>
               Inr (tx\<lparr>heightIndexBucket := hs\<rparr>,
                    \<lparr>requestIndex = [], responseIndex = [], ackIndex = []\<rparr>)))"

definition storeHeight :: "DB \<Rightarrow> bytes \<Rightarrow> height_bucket \<Rightarrow> DB" where
  "storeHeight tx k hb = tx\<lparr>heightIndexBucket := insertKey k hb (heightIndexBucket tx)\<rparr>"

definition pushResponedQuery ::
  "env \<Rightarrow> chain \<Rightarrow> signed_response_header \<Rightarrow> error option \<times> chain" where
  "pushResponedQuery e c resp =
     (let h = getHeightFromTime (rt c) (RequestTimestamp resp);
          k = heightToKey h
      in case marshalResponse resp of
           Inl err \<Rightarrow> (Some err, c)
         | Inr enc \<Rightarrow>
             Update e c (\<lambda>tx m.
               case ensureHeight tx k of
                 Inl err \<Rightarrow> (Some err, tx, m)
               | Inr (tx1, heightBucket) \<Rightarrow>
                   (case Put (responseIndex heightBucket) (ResponseHash resp) enc of
                      Inl err \<Rightarrow> (Some err, tx1, m)
                    | Inr ri \<Rightarrow>
                        (case addResponse (qi m) h resp of
                           (err, q) \<Rightarrow>
                             (err, storeHeight tx1 k (heightBucket\<lparr>responseIndex := ri\<rparr>),
                              m\<lparr>qi := q\<rparr>)))))"

text \<open>
  In \<open>pushAckedQuery\<close> an error of \<open>Put\<close> other than \<open>ErrIncompatibleValue\<close> returns;
  on \<open>nil\<close> and on \<open>ErrIncompatibleValue\<close> the ack goes on to the query index.
\<close>

definition pushAckedQuery ::
  "env \<Rightarrow> chain \<Rightarrow> signed_ack_header \<Rightarrow> error option \<times> chain" where
  "pushAckedQuery e c ack =
     (let h = getHeightFromTime (rt c) (ResponseTimestamp (Response ack));
          k = heightToKey h
      in case marshalAck ack of
           Inl err \<Rightarrow> (Some err, c)
         | Inr enc \<Rightarrow>
             Update e c (\<lambda>tx m.
               case ensureHeight tx k of
                 Inl err \<Rightarrow> (Some err, tx, m)
               | Inr (tx1, b) \<Rightarrow>
                   (let (perr, tx2) =
                          (case Put (ackIndex b) (AckHash ack) enc of
                             Inl err \<Rightarrow> (Some err, tx1)
                           | Inr ai \<Rightarrow> (None, storeHeight tx1 k (b\<lparr>ackIndex := ai\<rparr>)))
                    in if perr \<noteq> None \<and> perr \<noteq> Some ErrIncompatibleValue
                       then (perr, tx2, m)
                       else (case addAck (qi m) h ack of
                               (err, q) \<Rightarrow> (err, tx2, m\<lparr>qi := q\<rparr>)))))"

definition VerifyAndPushResponsedQuery ::
  "env \<Rightarrow> chain \<Rightarrow> signed_response_header \<Rightarrow> error option \<times> chain" where
  "VerifyAndPushResponsedQuery e c resp =
     (if queryTimeIsExpired (rt c) (ResponseTimestamp resp) then (Some ErrQueryExpired, c)
      else case verifyResponse e resp of
             Some err \<Rightarrow> (Some err, c)
           | None \<Rightarrow> pushResponedQuery e c resp)"

definition VerifyAndPushAckedQuery ::
  "env \<Rightarrow> chain \<Rightarrow> signed_ack_header \<Rightarrow> error option \<times> chain" where
  "VerifyAndPushAckedQuery e c ack =
     (if queryTimeIsExpired (rt c) (ResponseTimestamp (Response ack))
      then (Some ErrQueryExpired, c)
      else case verifyAck e ack of
             Some err \<Rightarrow> (Some err, c)
           | None \<Rightarrow> pushAckedQuery e c ack)"

subsection \<open>Checking and pushing a block of another peer\<close>

text \<open>
  \<open>syncAckedQuery\<close> asks the named peer for the ack and pushes what it returns.
\<close>

definition syncAckedQuery ::
  "env \<Rightarrow> chain \<Rightarrow> int32 \<Rightarrow> hash \<Rightarrow> node_id \<Rightarrow> error option \<times> chain" where
  "syncAckedQuery e c height ackHash nid =
     (case callFetchAckedQuery e nid height ackHash of
        Inl err \<Rightarrow> (Some err, c)
      | Inr ack \<Rightarrow> VerifyAndPushAckedQuery e c ack)"

text \<open>
  Go's \<open>%\<close> on int32 truncates towards zero and panics on a zero divisor.
\<close>

definition rem32 :: "int32 \<Rightarrow> int32 \<Rightarrow> error + int32" where
  "rem32 a b =
     (if b = 0 then Inl PanicDivideByZero else Inr (word_of_int (sint a smod sint b)))"

text \<open>The closure \<open>next\<close> of \<open>CheckAndPushNewBlock\<close>, called where it is defined.\<close>

definition nextIndex :: "state \<Rightarrow> int32 \<Rightarrow> error + int32" where
  "nextIndex st n = (if 0 <s n then rem32 (Height st + 1) n else Inr (- 1))"

text \<open>The loop over \<open>block.Queries\<close>.\<close>

fun checkQueries ::
  "env \<Rightarrow> chain \<Rightarrow> int32 \<Rightarrow> block \<Rightarrow> hash list \<Rightarrow> error option \<times> chain" where
  "checkQueries e c height b [] = (None, c)"
| "checkQueries e c height b (q # qs) =
     (case checkAckFromBlock (qi c) height (BlockHash (SignedHeader b)) q of
        (ok, Some err) \<Rightarrow> (Some err, c)
      | (ok, None) \<Rightarrow>
          if ok then checkQueries e c height b qs
          else (case syncAckedQuery e c height q (Producer (SignedHeader b)) of
                  (Some err, c1) \<Rightarrow> (Some err, c1)
                | (None, c1) \<Rightarrow>
                    (case checkAckFromBlock (qi c1) height (BlockHash (SignedHeader b)) q of
                       (ok', Some err) \<Rightarrow> (Some err, c1)
                     | (ok', None) \<Rightarrow> checkQueries e c1 height b qs)))"

definition CheckAndPushNewBlock :: "env \<Rightarrow> chain \<Rightarrow> block \<Rightarrow> error option \<times> chain" where
  "CheckAndPushNewBlock e c b =
     (let height = getHeightFromTime (rt c) (Timestamp (SignedHeader b));
          hdst = getHead (rt c);
          ps = getPeers (rt c);
          total' = (word_of_nat (length (Servers ps)) :: int32)
      in case nextIndex hdst total' of
           Inl p \<Rightarrow> (Some p, c)
         | Inr next \<Rightarrow>
             if Height hdst = height \<and> Head hdst = BlockHash (SignedHeader b) then (None, c)
             else if ParentHash (SignedHeader b) \<noteq> Head hdst then (Some ErrInvalidBlock, c)
             else (case Find ps (Producer (SignedHeader b)) of
                     (index, found) \<Rightarrow>
                       if \<not> found then (Some ErrUnknownProducer, c)
                       else if index \<noteq> next then (Some ErrInvalidProducer, c)
                       else (case checkQueries e c height b (Queries b) of
                               (Some err, c1) \<Rightarrow> (Some err, c1)
                             | (None, c1) \<Rightarrow>
                                 (case verifyBlock e b of
                                    Some err \<Rightarrow> (Some err, c1)
                                  | None \<Rightarrow> pushBlock e c1 b))))"

subsection \<open>processBlocks\<close>


subsection \<open>Fetching blocks and acks\<close>


text \<open>
  The loop of \<open>FetchAckedQuery\<close> runs \<open>i\<close> from \<open>height - queryTTL\<close> while
  \<open>i <= height\<close>; \<open>i++\<close> wraps around, so the loop need not end, and not returning is
  the value \<open>None\<close>. The state of the loop is the result pair \<open>(ack, err)\<close>. The body
  reads the bucket of \<open>heightToKey(height)\<close>; when a value is found it is decoded into a
  fresh \<open>dec\<close>, and only when decoding fails, \<open>ack = dec\<close> is assigned and the loop left
  (\<open>dec\<close> is then the zero value the decoder was handed).
\<close>

partial_function (option) fetchAckLoop ::
  "DB \<Rightarrow> int32 \<Rightarrow> hash \<Rightarrow> int32 \<Rightarrow> signed_ack_header option \<times> error option
     \<Rightarrow> (signed_ack_header option \<times> error option) option" where
  "fetchAckLoop tx height header i res =
     (if i \<le>s height then
        (case Get (heightIndexBucket tx) (heightToKey height) of
           None \<Rightarrow> fetchAckLoop tx height header (i + 1) res
         | Some b \<Rightarrow>
             (case Get (ackIndex b) header of
                None \<Rightarrow> fetchAckLoop tx height header (i + 1) res
              | Some v \<Rightarrow>
                  (case unmarshalAck v of
                     Inl err \<Rightarrow> Some (Some zeroAck, Some err)
                   | Inr dec \<Rightarrow> fetchAckLoop tx height header (i + 1) (fst res, None))))
      else Some res)"

definition FetchAckedQuery ::
  "chain \<Rightarrow> int32 \<Rightarrow> hash \<Rightarrow> (signed_ack_header option \<times> error option) option" where
  "FetchAckedQuery c height header =
     (case getAck (qi c) height header of
        (ack, None) \<Rightarrow> Some (ack, None)
      | (ack, Some err) \<Rightarrow>
          fetchAckLoop (db c) height header (height - queryTTL (rt c)) (ack, None))"

subsection \<open>LoadChain\<close>

text \<open>
  The first \<open>ForEach\<close> of \<open>LoadChain\<close>, over the block bucket. Its state is the runtime
  (the genesis constants are set at the first block), \<open>last\<close> and the nodes initialised
  so far; the block index of the chain is read and never written. The result carries the
  error, if any, and the state reached.
\<close>

fun loadBlocks ::
  "env \<Rightarrow> blockIndex \<Rightarrow> (hash, encoded) bucket \<Rightarrow> runtime \<Rightarrow> blockNode option
     \<Rightarrow> blockNode list \<Rightarrow> error option \<times> runtime \<times> blockNode option \<times> blockNode list" where
  "loadBlocks e ix [] r last' nodes = (None, r, last', nodes)"
| "loadBlocks e ix ((k, v) # kvs) r last' nodes =
     (case unmarshalBlock v of
        Inl err \<Rightarrow> (Some err, r, last', nodes)
      | Inr b \<Rightarrow>
          (case (case last' of
                   None \<Rightarrow>
                     (case verifyAsGenesis e b of
                        Some err \<Rightarrow> Inl err
                      | None \<Rightarrow> Inr (setGenesis r b, None))
                 | Some l \<Rightarrow>
                     if ParentHash (SignedHeader b) = node_hash l
                     then (case verifyHeader e (SignedHeader b) of
                             Some err \<Rightarrow> Inl err
                           | None \<Rightarrow> Inr (r, Some l))
                     else (case lookupNode ix (BlockHash (SignedHeader b)) of
                             None \<Rightarrow> Inl ErrParentNotFound
                           | Some p \<Rightarrow> Inr (r, Some p)))
           of Inl err \<Rightarrow> (Some err, r, last', nodes)
            | Inr (r1, parent) \<Rightarrow>
                (let height = getHeightFromTime r1 (Timestamp (SignedHeader b));
                     n = initBlockNode height b parent
                 in loadBlocks e ix kvs r1 (Some n) (nodes @ [n]))))"

text \<open>The inner loops over the response and ack buckets of one height.\<close>

fun loadResponses ::
  "queryIndex \<Rightarrow> int32 \<Rightarrow> (hash, encoded) bucket \<Rightarrow> error option \<times> queryIndex" where
  "loadResponses q h [] = (None, q)"
| "loadResponses q h ((k, v) # kvs) =
     (case unmarshalResponse v of
        Inl err \<Rightarrow> (Some err, q)
      | Inr resp \<Rightarrow>
          (case addResponse q h resp of
             (Some err, q1) \<Rightarrow> (Some err, q1)
           | (None, q1) \<Rightarrow> loadResponses q1 h kvs))"

fun loadAcks ::
  "queryIndex \<Rightarrow> int32 \<Rightarrow> (hash, encoded) bucket \<Rightarrow> error option \<times> queryIndex" where
  "loadAcks q h [] = (None, q)"
| "loadAcks q h ((k, v) # kvs) =
     (case unmarshalAck v of
        Inl err \<Rightarrow> (Some err, q)
      | Inr ack \<Rightarrow>
          (case addAck q h ack of
             (Some err, q1) \<Rightarrow> (Some err, q1)
           | (None, q1) \<Rightarrow> loadAcks q1 h kvs))"

text \<open>The second \<open>ForEach\<close>, over the height bucket.\<close>

fun loadHeights ::
  "queryIndex \<Rightarrow> (bytes, height_bucket) bucket \<Rightarrow> error option \<times> queryIndex" where
  "loadHeights q [] = (None, q)"
| "loadHeights q ((k, hb) # kvs) =
     (case keyToHeight k of
        None \<Rightarrow> (Some PanicIndexOutOfRange, q)
      | Some h \<Rightarrow>
          (case loadResponses q h (responseIndex hb) of
             (Some err, q1) \<Rightarrow> (Some err, q1)
           | (None, q1) \<Rightarrow>
               (case loadAcks q1 h (ackIndex hb) of
                  (Some err, q2) \<Rightarrow> (Some err, q2)
                | (None, q2) \<Rightarrow> loadHeights q2 kvs)))"

text \<open>
  \<open>LoadChain\<close> on an opened store. The runtime \<open>newRunTime(c)\<close> of the configuration is
  the argument \<open>r0\<close>; the block index and the query index start empty. The chain is
  returned with the error.
\<close>

definition LoadChain :: "env \<Rightarrow> runtime \<Rightarrow> DB \<Rightarrow> error option \<times> chain" where
  "LoadChain e r0 d =
     (let c0 = \<lparr>db = d, bi = newBlockIndex, qi = newQueryIndex, rt = r0\<rparr>
      in case unmarshalState (stateValue d) of
           Inl err \<Rightarrow> (Some err, c0)
         | Inr st \<Rightarrow>
             (case loadBlocks e (bi c0) (blockIndexBucket d) (setHead r0 st) None [] of
                (Some err, r1, last', nodes) \<Rightarrow> (Some err, c0\<lparr>rt := r1\<rparr>)
              | (None, r1, last', nodes) \<Rightarrow>
                  (case loadHeights (qi c0) (heightIndexBucket d) of
                     (err, q1) \<Rightarrow> (err, c0\<lparr>rt := r1, qi := q1\<rparr>))))"

subsection \<open>A small chain for the examples\<close>

text \<open>
  The setting of the scenarios of the specification: genesis at time 0, a period of 60
  seconds (in nanoseconds), the peers A, B and C, \<open>queryTTL = 10\<close>, the own server A. In
  \<open>exEnv\<close> every signature verifies, no peer answers and the store commits; in
  \<open>exEnvNoCommit\<close> the store fails to commit.
\<close>

definition exEnv :: env where
  "exEnv = \<lparr>verifyAsGenesis = (\<lambda>b. None), verifyHeader = (\<lambda>h. None),
            verifyBlock = (\<lambda>b. None), verifyResponse = (\<lambda>r. None),
            verifyAck = (\<lambda>a. None), callFetchAckedQuery = (\<lambda>n h k. Inl ErrRPC),
            commit = (\<lambda>d. None)\<rparr>"

definition exEnvNoCommit :: env where
  "exEnvNoCommit = exEnv\<lparr>commit := (\<lambda>d. Some ErrCommit)\<rparr>"

definition exPeriod :: int where
  "exPeriod = 60000000000"

definition exBlock :: "node_id \<Rightarrow> hash \<Rightarrow> hash \<Rightarrow> timestamp \<Rightarrow> block" where
  "exBlock producer parent blockHash t =
     \<lparr>SignedHeader =
        \<lparr>Version = 16777216, Producer = producer, GenesisHash = 1, ParentHash = parent,
         MerkleRoot = 0, Timestamp = t, BlockHash = blockHash, Signee = [], Signature = []\<rparr>,
      Queries = []\<rparr>"

definition exGenesis :: block where
  "exGenesis = exBlock ''A'' 0 1 0"

definition exGenesisNode :: blockNode where
  "exGenesisNode = newBlockNode 0 exGenesis None"

definition exPeers :: peers where
  "exPeers = \<lparr>Servers = [\<lparr>ID = ''A''\<rparr>, \<lparr>ID = ''B''\<rparr>, \<lparr>ID = ''C''\<rparr>]\<rparr>"

definition exRuntime :: runtime where
  "exRuntime =
     \<lparr>chainInitTime = 0, genesisHash = 1, period = exPeriod, queryTTL = 10,
      rtPeers = exPeers, rtServer = \<lparr>ID = ''A''\<rparr>,
      head = \<lparr>node = Some exGenesisNode, Head = 1, Height = 0\<rparr>, nextTurn = 1\<rparr>"

text \<open>The chain as \<open>NewChain\<close> leaves it: the genesis block pushed.\<close>

definition exChain :: chain where
  "exChain =
     \<lparr>db = \<lparr>stateValue = Some (EncState 1 0), blockIndexBucket = [(1, EncBlock exGenesis)],
             heightIndexBucket = []\<rparr>,
      bi = addBlock newBlockIndex exGenesisNode,
      qi = newQueryIndex,
      rt = exRuntime\<rparr>"



text \<open>
  An ack and a response of a given time and hash; the chain with its head at height 20;
  a store in which two blocks name the genesis block as parent; a store that holds an ack
  of height 0.
\<close>

definition exAck :: "timestamp \<Rightarrow> hash \<Rightarrow> signed_ack_header" where
  "exAck t k = \<lparr>Response = \<lparr>RequestTimestamp = t, ResponseTimestamp = t, ResponseHash = k + 1\<rparr>,
               AckTimestamp = t, AckHash = k\<rparr>"

definition exResponse :: "timestamp \<Rightarrow> hash \<Rightarrow> signed_response_header" where
  "exResponse t k = \<lparr>RequestTimestamp = t, ResponseTimestamp = t, ResponseHash = k\<rparr>"

definition exChain20 :: chain where
  "exChain20 = exChain\<lparr>rt := exRuntime\<lparr>head := \<lparr>node = None, Head = 9, Height = 20\<rparr>\<rparr>\<rparr>"

definition exBlockA :: block where
  "exBlockA = exBlock ''B'' 1 2 exPeriod"

definition exBlockFork :: block where
  "exBlockFork = exBlock ''B'' 1 3 (exPeriod + 1)"

definition exForkDB :: DB where
  "exForkDB =
     \<lparr>stateValue = Some (EncState 2 1),
      blockIndexBucket = [(1, EncBlock exGenesis), (2, EncBlock exBlockA), (3, EncBlock exBlockFork)],
      heightIndexBucket = []\<rparr>"

definition exAckDB :: DB where
  "exAckDB = (db exChain)\<lparr>heightIndexBucket :=
     [(heightToKey 0, \<lparr>requestIndex = [], responseIndex = [], ackIndex = [(7, EncAck (exAck 0 7))]\<rparr>)]\<rparr>"

text \<open>
  A path on which every parent is lower than its child, as on a chain whose heights grow
  with the blocks.
\<close>

fun descending :: "blockNode \<Rightarrow> bool" where
  "descending (BlockNode h k b p) =
     (case p of None \<Rightarrow> True | Some q \<Rightarrow> node_height q <s h \<and> descending q)"

subsection \<open>Facts about 32-bit words and their big-endian bytes\<close>

lemma byte_of_drop_bit:
  "unat (ucast (drop_bit k (h::int32)) :: byte) = (unat h div 2 ^ k) mod 256"
  apply (simp only: unsigned_ucast_eq unat_drop_bit_eq)
  apply (simp add: take_bit_eq_mod drop_bit_eq_div)
  done

lemma byte_of_low: "unat (ucast (h::int32) :: byte) = unat h mod 256"
  by (simp add: unsigned_ucast_eq take_bit_eq_mod)

lemma less_four_bytes:
  "[a0, a1, a2, a3] < [b0, b1, b2, b3 :: byte] \<longleftrightarrow>
     (unat a0 < unat b0 \<or> (unat a0 = unat b0 \<and> (unat a1 < unat b1 \<or> (unat a1 = unat b1
       \<and> (unat a2 < unat b2 \<or> (unat a2 = unat b2 \<and> unat a3 < unat b3))))))"
  by (auto simp add: word_less_nat_alt dest: unsigned_word_eqI)

lemma nat_less_by_digit:
  fixes m n b :: nat
  assumes "0 < b"
  shows "m < n \<longleftrightarrow> m div b < n div b \<or> (m div b = n div b \<and> m mod b < n mod b)"
  using assms
  by (metis div_le_mono div_mod_decomp linorder_not_less
      nat_add_left_cancel_less order_less_le)

lemma nat_eq_by_digit:
  fixes m n b :: nat
  shows "m = n \<longleftrightarrow> m div b = n div b \<and> m mod b = n mod b"
  by (metis div_mult_mod_eq)

lemma four_digits_less:
  fixes m n :: nat
  assumes "m < 4294967296" "n < 4294967296"
  shows "(m div 16777216 mod 256 < n div 16777216 mod 256 \<or>
          (m div 16777216 mod 256 = n div 16777216 mod 256 \<and>
           (m div 65536 mod 256 < n div 65536 mod 256 \<or>
            (m div 65536 mod 256 = n div 65536 mod 256 \<and>
             (m div 256 mod 256 < n div 256 mod 256 \<or>
              (m div 256 mod 256 = n div 256 mod 256 \<and> m mod 256 < n mod 256))))))
         \<longleftrightarrow> m < n"
proof -
  have t: "m div 16777216 mod 256 = m div 16777216" "n div 16777216 mod 256 = n div 16777216"
    using assms by (simp_all add: less_mult_imp_div_less)
  have d2: "m div 65536 div 256 = m div 16777216" "n div 65536 div 256 = n div 16777216"
    by (simp_all add: div_mult2_eq [symmetric])
  have d1: "m div 256 div 256 = m div 65536" "n div 256 div 256 = n div 65536"
    by (simp_all add: div_mult2_eq [symmetric])
  have l0: "m < n \<longleftrightarrow> m div 256 < n div 256 \<or> (m div 256 = n div 256 \<and> m mod 256 < n mod 256)"
    by (rule nat_less_by_digit) simp
  have l1: "m div 256 < n div 256 \<longleftrightarrow> m div 65536 < n div 65536
      \<or> (m div 65536 = n div 65536 \<and> m div 256 mod 256 < n div 256 mod 256)"
    using nat_less_by_digit [of 256 "m div 256" "n div 256"] unfolding d1 by simp
  have l2: "m div 65536 < n div 65536 \<longleftrightarrow> m div 16777216 < n div 16777216
      \<or> (m div 16777216 = n div 16777216 \<and> m div 65536 mod 256 < n div 65536 mod 256)"
    using nat_less_by_digit [of 256 "m div 65536" "n div 65536"] unfolding d2 by simp
  have e1: "m div 256 = n div 256 \<longleftrightarrow> m div 65536 = n div 65536
      \<and> m div 256 mod 256 = n div 256 mod 256"
    using nat_eq_by_digit [of "m div 256" "n div 256" 256] by (simp only: d1)
  have e2: "m div 65536 = n div 65536 \<longleftrightarrow> m div 16777216 = n div 16777216
      \<and> m div 65536 mod 256 = n div 65536 mod 256"
    using nat_eq_by_digit [of "m div 65536" "n div 65536" 256] by (simp only: d2)
  show ?thesis
    unfolding t l0 l1 l2 e1 e2 by blast
qed

lemma heightToKey_less_iff: "heightToKey h1 < heightToKey h2 \<longleftrightarrow> h1 < h2"
proof -
  have b1: "unat h1 < 4294967296" using unsigned_less [of h1] by simp
  have b2: "unat h2 < 4294967296" using unsigned_less [of h2] by simp
  have "heightToKey h1 < heightToKey h2 \<longleftrightarrow> unat h1 < unat h2"
    unfolding heightToKey_def less_four_bytes byte_of_low unat_drop_bit_eq
    using four_digits_less [OF b1 b2] by (simp add: drop_bit_eq_div)
  then show ?thesis by (simp add: word_less_nat_alt)
qed

lemma sint_uint32:
  "sint (h::int32) = (if uint h < 2147483648 then uint h else uint h - 4294967296)"
proof -
  have s: "sint h = (uint h + 2147483648) mod 4294967296 - 2147483648"
    by (simp add: sint_uint signed_take_bit_eq_take_bit_shift take_bit_eq_mod)
  have lo: "0 \<le> uint h" by simp
  have hi: "uint h < 4294967296" using uint_lt2p [of h] by simp
  show ?thesis
  proof (cases "uint h < 2147483648")
    case True
    have "(uint h + 2147483648) mod 4294967296 = uint h + 2147483648"
      by (rule mod_pos_pos_trivial) (use lo True in linarith)+
    with s True show ?thesis by simp
  next
    case False
    have e: "uint h + 2147483648 = uint h - 2147483648 + 4294967296"
      by arith
    have "(uint h + 2147483648) mod 4294967296
            = (uint h - 2147483648 + 4294967296) mod 4294967296"
      by (simp only: e [symmetric])
    also have "\<dots> = (uint h - 2147483648) mod 4294967296"
      by (simp only: mod_add_self2)
    also have "\<dots> = uint h - 2147483648"
      by (rule mod_pos_pos_trivial) (use hi False in linarith)+
    finally show ?thesis using s False by simp
  qed
qed

lemma sless_unsigned_less:
  assumes "(h1::int32) <s h2"
  shows "h1 < h2 \<longleftrightarrow> \<not> (h1 <s 0 \<and> 0 \<le>s h2)"
proof -
  have b: "0 \<le> uint h1" "0 \<le> uint h2" "uint h1 < 4294967296" "uint h2 < 4294967296"
    using uint_lt2p [of h1] uint_lt2p [of h2] by simp_all
  from assms have "sint h1 < sint h2" by (simp add: word_sless_alt)
  then show ?thesis
    unfolding word_sless_alt word_sle_eq word_less_def sint_uint32 [of h1] sint_uint32 [of h2]
    using b by (simp split: if_splits)
qed

lemma or_of_bytes:
  "(ucast (ucast (h::int32) :: byte) OR push_bit 8 (ucast (ucast (drop_bit 8 h) :: byte))
     OR push_bit 16 (ucast (ucast (drop_bit 16 h) :: byte))
     OR push_bit 24 (ucast (ucast (drop_bit 24 h) :: byte))) = h"
  apply (rule bit_word_eqI)
  subgoal for n
    apply (cases "n < 8"; cases "n < 16"; cases "n < 24")
           apply (auto simp add: bit_simps)
    done
  done

lemma keyToHeight_heightToKey: "keyToHeight (heightToKey h) = Some h"
  unfolding heightToKey_def keyToHeight.simps
  by (simp only: or_of_bytes)

subsection \<open>Order and round trip of the height keys\<close>

text \<open>
  C8, as stated: for every pair of int32 heights \<open>h1 < h2\<close> the key of \<open>h1\<close> is
  lexicographically smaller than the key of \<open>h2\<close>. The keys hold \<open>uint32(h)\<close>, so a
  negative height is keyed above every non-negative one: the statement fails at
  \<open>h1 = -1\<close>, \<open>h2 = 0\<close>, whose keys are \<open>FF FF FF FF\<close> and \<open>00 00 00 00\<close>.
\<close>

theorem heightToKey_order_counterexample:
  "(-1 :: int32) <s 0 \<and> \<not> heightToKey (-1) < heightToKey 0"
  by (simp add: heightToKey_less_iff)

text \<open>
  C8, amended: for int32 heights \<open>h1 < h2\<close> the key of \<open>h1\<close> is lexicographically smaller
  than the key of \<open>h2\<close> exactly when the two heights have the same sign, that is unless
  \<open>h1 < 0 \<le> h2\<close> (so iteration over the keys of non-negative heights is chronological);
  and \<open>keyToHeight (heightToKey h) = h\<close> for every int32 \<open>h\<close>.
\<close>

theorem heightToKey_order_roundtrip:
  "(h1 <s h2 \<longrightarrow> (heightToKey h1 < heightToKey h2 \<longleftrightarrow> \<not> (h1 <s 0 \<and> 0 \<le>s h2)))
   \<and> keyToHeight (heightToKey h) = Some h"
  using sless_unsigned_less [of h1 h2]
  by (simp add: heightToKey_less_iff keyToHeight_heightToKey)

theorem heightToKey_order_roundtrip_witness:
  "(3 :: int32) <s 5 \<and> heightToKey 3 < heightToKey 5 \<and> \<not> ((3 :: int32) <s 0 \<and> (0 :: int32) \<le>s 5)
   \<and> keyToHeight (heightToKey 7) = Some 7"
  using heightToKey_order_roundtrip [of 3 5 7] by (simp add: word_sless_alt word_sle_eq)

subsection \<open>The example values unfolded\<close>

lemmas ex_defs = exChain_def exRuntime_def exGenesis_def exBlock_def exPeers_def exPeriod_def
  exEnv_def exGenesisNode_def getHead_def getPeers_def getHeightFromTime_def newBlockNode_def

section \<open>Checking a block of another peer\<close>

subsection \<open>The rotation index and the producer lookup\<close>

lemma nextIndex_Inr: "\<exists>nx. nextIndex st n = Inr nx"
  by (auto simp add: nextIndex_def rem32_def)

lemma findFrom_found: "snd (findFrom ss key i) \<longleftrightarrow> key \<in> ID ` set ss"
  by (induction ss arbitrary: i) auto

lemma Find_found: "snd (Find ps key) \<longleftrightarrow> key \<in> ID ` set (Servers ps)"
  by (simp add: Find_def findFrom_found)

lemma sint_of_nat32: "n < 2147483648 \<Longrightarrow> sint (word_of_nat n :: int32) = int n"
  by (simp add: sint_uint32 unsigned_of_nat take_bit_nat_eq_self)

lemma uint_succ32: "uint (h::int32) < 4294967295 \<Longrightarrow> uint (h + 1) = uint h + 1"
  by (simp add: uint_word_ariths mod_pos_pos_trivial)

lemma sint_succ32:
  assumes "0 \<le> sint (h::int32)" "sint h < 2147483647"
  shows "sint (h + 1) = sint h + 1"
proof -
  have u: "uint h < 2147483648"
    using assms(1) uint_lt2p [of h] by (simp add: sint_uint32 split: if_splits)
  then have s: "sint h = uint h" by (simp add: sint_uint32)
  have "uint (h + 1) = uint h + 1" using u by (simp add: uint_succ32)
  moreover have "uint h + 1 < 2147483648" using assms(2) s by simp
  ultimately show ?thesis using s by (simp add: sint_uint32 [of "h + 1"])
qed

lemma nextIndex_mod:
  assumes "0 \<le> sint (Height st)" "sint (Height st) < 2147483647" "0 < n" "n < 2147483648"
  shows "nextIndex st (word_of_nat n) = Inr (word_of_int ((sint (Height st) + 1) mod int n))"
proof -
  have sn: "sint (word_of_nat n :: int32) = int n"
    using assms(4) by (rule sint_of_nat32)
  have pos: "(0 :: int32) <s word_of_nat n"
    using assms(3) by (simp add: word_sless_alt sn)
  have nz: "(word_of_nat n :: int32) \<noteq> 0"
    using sn assms(3) by auto
  have sh: "sint (Height st + 1) = sint (Height st) + 1"
    using assms(1,2) by (rule sint_succ32)
  have "(sint (Height st) + 1) smod int n = (sint (Height st) + 1) mod int n"
    using assms(1,3) by (simp add: signed_modulo_int_def)
  then show ?thesis
    using pos nz by (simp add: nextIndex_def rem32_def sh sn)
qed

lemma findFrom_index:
  "key \<in> ID ` set ss \<Longrightarrow>
   \<exists>j < length ss. ID (ss ! j) = key \<and> (\<forall>k < j. ID (ss ! k) \<noteq> key)
      \<and> fst (findFrom ss key i) = word_of_nat (i + j)"
proof (induction ss arbitrary: i)
  case Nil
  then show ?case by simp
next
  case (Cons s ss)
  show ?case
  proof (cases "ID s = key")
    case True
    then show ?thesis by (intro exI [of _ 0]) simp
  next
    case False
    with Cons.prems have "key \<in> ID ` set ss" by auto
    from Cons.IH [OF this, of "Suc i"] obtain j where
      j: "j < length ss" "ID (ss ! j) = key" "\<forall>k < j. ID (ss ! k) \<noteq> key"
         "fst (findFrom ss key (Suc i)) = word_of_nat (Suc i + j)" by blast
    show ?thesis
    proof (intro exI [of _ "Suc j"] conjI allI impI)
      show "Suc j < length (s # ss)" using j(1) by simp
      show "ID ((s # ss) ! Suc j) = key" using j(2) by simp
      show "ID ((s # ss) ! k) \<noteq> key" if "k < Suc j" for k
        using that False j(3) by (cases k) auto
      show "fst (findFrom (s # ss) key i) = word_of_nat (i + Suc j)"
        using False j(4) by simp
    qed
  qed
qed

subsection \<open>What the pushes leave alone\<close>









subsection \<open>The decision chain of CheckAndPushNewBlock\<close>

text \<open>
  The closure \<open>next\<close> never panics, so the function is its chain of checks.
\<close>

lemma CheckAndPushNewBlock_cases:
  "CheckAndPushNewBlock e c b =
     (let height = getHeightFromTime (rt c) (Timestamp (SignedHeader b));
          hdst = getHead (rt c);
          ps = getPeers (rt c)
      in if Height hdst = height \<and> Head hdst = BlockHash (SignedHeader b) then (None, c)
         else if ParentHash (SignedHeader b) \<noteq> Head hdst then (Some ErrInvalidBlock, c)
         else if \<not> snd (Find ps (Producer (SignedHeader b))) then (Some ErrUnknownProducer, c)
         else if Inr (fst (Find ps (Producer (SignedHeader b))))
                   \<noteq> nextIndex hdst (word_of_nat (length (Servers ps)))
              then (Some ErrInvalidProducer, c)
         else (case checkQueries e c height b (Queries b) of
                 (Some err, c1) \<Rightarrow> (Some err, c1)
               | (None, c1) \<Rightarrow>
                   (case verifyBlock e b of
                      Some err \<Rightarrow> (Some err, c1)
                    | None \<Rightarrow> pushBlock e c1 b)))"
proof -
  obtain nx where "nextIndex (getHead (rt c)) (word_of_nat (length (Servers (getPeers (rt c))))) = Inr nx"
    using nextIndex_Inr by blast
  then show ?thesis
    by (simp add: CheckAndPushNewBlock_def Let_def split: prod.splits)
qed

text \<open>
  C4: for every block passed to \<open>CheckAndPushNewBlock\<close>, if the height of the block equals
  the head height and its hash equals the head hash, the call returns \<open>nil\<close> and changes
  nothing; otherwise, if the parent hash of the block differs from the head hash, the call
  returns \<open>ErrInvalidBlock\<close> and the head is unchanged (the whole chain is).
\<close>

theorem CheckAndPushNewBlock_head_or_parent:
  "(Height (getHead (rt c)) = getHeightFromTime (rt c) (Timestamp (SignedHeader b))
      \<and> Head (getHead (rt c)) = BlockHash (SignedHeader b)
      \<longrightarrow> CheckAndPushNewBlock e c b = (None, c))
   \<and> (\<not> (Height (getHead (rt c)) = getHeightFromTime (rt c) (Timestamp (SignedHeader b))
          \<and> Head (getHead (rt c)) = BlockHash (SignedHeader b))
        \<and> ParentHash (SignedHeader b) \<noteq> Head (getHead (rt c))
      \<longrightarrow> CheckAndPushNewBlock e c b = (Some ErrInvalidBlock, c)
          \<and> getHead (rt (snd (CheckAndPushNewBlock e c b))) = getHead (rt c))"
  by (simp add: CheckAndPushNewBlock_cases Let_def)

theorem CheckAndPushNewBlock_head_or_parent_witness:
  "CheckAndPushNewBlock exEnv exChain exGenesis = (None, exChain)
   \<and> CheckAndPushNewBlock exEnv exChain (exBlock ''B'' 7 2 exPeriod) = (Some ErrInvalidBlock, exChain)"
  using CheckAndPushNewBlock_head_or_parent [of exChain exGenesis exEnv]
        CheckAndPushNewBlock_head_or_parent [of exChain "exBlock ''B'' 7 2 exPeriod" exEnv]
  by (simp add: ex_defs)

text \<open>
  C9, as stated: with an empty peer list \<open>CheckAndPushNewBlock\<close> returns an error on any
  incoming block. The first check comes before the producer checks: a block that is
  already the head (here the genesis block, offered again) gets \<open>nil\<close>.
\<close>

theorem CheckAndPushNewBlock_no_peers_counterexample:
  "Servers (getPeers (rt (exChain\<lparr>rt := exRuntime\<lparr>rtPeers := \<lparr>Servers = []\<rparr>\<rparr>\<rparr>))) = []
   \<and> fst (CheckAndPushNewBlock exEnv (exChain\<lparr>rt := exRuntime\<lparr>rtPeers := \<lparr>Servers = []\<rparr>\<rparr>\<rparr>)
            exGenesis) = None"
  by (simp add: CheckAndPushNewBlock_cases Let_def ex_defs)

text \<open>
  C9, amended: with an empty peer list \<open>CheckAndPushNewBlock\<close> does not panic (the zero
  divisor is guarded, the result is never a panic value) and never accepts a block: it
  returns \<open>nil\<close> without any change for a block that is already the head,
  \<open>ErrInvalidBlock\<close> for a block whose parent is not the head and \<open>ErrUnknownProducer\<close>
  for every other block, and the chain is unchanged in each case.
\<close>

theorem CheckAndPushNewBlock_no_peers:
  assumes "Servers (getPeers (rt c)) = []"
  shows "CheckAndPushNewBlock e c b =
           (if Height (getHead (rt c)) = getHeightFromTime (rt c) (Timestamp (SignedHeader b))
               \<and> Head (getHead (rt c)) = BlockHash (SignedHeader b)
            then (None, c)
            else if ParentHash (SignedHeader b) \<noteq> Head (getHead (rt c))
            then (Some ErrInvalidBlock, c)
            else (Some ErrUnknownProducer, c))"
  using assms by (simp add: CheckAndPushNewBlock_cases Let_def Find_def)

theorem CheckAndPushNewBlock_no_peers_witness:
  "Servers (getPeers (rt (exChain\<lparr>rt := exRuntime\<lparr>rtPeers := \<lparr>Servers = []\<rparr>\<rparr>\<rparr>))) = []
   \<and> CheckAndPushNewBlock exEnv (exChain\<lparr>rt := exRuntime\<lparr>rtPeers := \<lparr>Servers = []\<rparr>\<rparr>\<rparr>)
        (exBlock ''B'' 1 2 exPeriod)
      = (Some ErrUnknownProducer, exChain\<lparr>rt := exRuntime\<lparr>rtPeers := \<lparr>Servers = []\<rparr>\<rparr>\<rparr>)"
  using CheckAndPushNewBlock_no_peers
          [of "exChain\<lparr>rt := exRuntime\<lparr>rtPeers := \<lparr>Servers = []\<rparr>\<rparr>\<rparr>" exEnv
              "exBlock ''B'' 1 2 exPeriod"]
  by (simp add: ex_defs)

text \<open>
  C3, as stated: every block whose parent hash equals the head hash and whose producer is
  not a peer gets \<open>ErrUnknownProducer\<close>. The check "already the head" comes first and
  looks at the height and the hash of the block only: a block that names the head hash both
  as its parent and as its own hash, at the head height, gets \<open>nil\<close> whoever produced it.
\<close>

theorem CheckAndPushNewBlock_producer_counterexample:
  "ParentHash (SignedHeader (exBlock ''Z'' 1 1 0)) = Head (getHead (rt exChain))
   \<and> Producer (SignedHeader (exBlock ''Z'' 1 1 0)) \<notin> ID ` set (Servers (getPeers (rt exChain)))
   \<and> fst (CheckAndPushNewBlock exEnv exChain (exBlock ''Z'' 1 1 0)) \<noteq> Some ErrUnknownProducer"
  by (simp add: CheckAndPushNewBlock_cases Let_def ex_defs)

lemma CheckAndPushNewBlock_pushed:
  assumes "fst (CheckAndPushNewBlock e c b) = None \<or> rt (snd (CheckAndPushNewBlock e c b)) \<noteq> rt c"
    and "\<not> (Height (getHead (rt c)) = getHeightFromTime (rt c) (Timestamp (SignedHeader b))
              \<and> Head (getHead (rt c)) = BlockHash (SignedHeader b))"
  shows "snd (Find (getPeers (rt c)) (Producer (SignedHeader b))) \<and>
         Inr (fst (Find (getPeers (rt c)) (Producer (SignedHeader b))))
           = nextIndex (getHead (rt c)) (word_of_nat (length (Servers (getPeers (rt c)))))"
proof (rule ccontr)
  assume n: "\<not> ?thesis"
  have "snd (CheckAndPushNewBlock e c b) = c \<and> fst (CheckAndPushNewBlock e c b) \<noteq> None"
  proof (cases "ParentHash (SignedHeader b) \<noteq> Head (getHead (rt c))")
    case True
    with assms(2) show ?thesis by (simp add: CheckAndPushNewBlock_cases Let_def)
  next
    case False
    note par = this
    show ?thesis
    proof (cases "snd (Find (getPeers (rt c)) (Producer (SignedHeader b)))")
      case False
      with par assms(2) show ?thesis by (simp add: CheckAndPushNewBlock_cases Let_def)
    next
      case True
      with n have "Inr (fst (Find (getPeers (rt c)) (Producer (SignedHeader b))))
           \<noteq> nextIndex (getHead (rt c)) (word_of_nat (length (Servers (getPeers (rt c)))))"
        by simp
      with True par assms(2) show ?thesis by (simp add: CheckAndPushNewBlock_cases Let_def)
    qed
  qed
  with assms(1) show False by auto
qed

text \<open>
  C3, amended: for every incoming block whose parent hash equals the head hash and which is
  not taken for the head itself (its height is not the head height or its hash is not the
  head hash), \<open>CheckAndPushNewBlock\<close> returns \<open>ErrUnknownProducer\<close> when the producer is
  not in the peer list and \<open>ErrInvalidProducer\<close> when the index of the producer differs
  from \<open>next\<close>, that is \<open>(head.Height + 1) % len(peers)\<close>; in both cases nothing changes.
  The call returns \<open>nil\<close>, or changes the runtime at all, only if the producer is a peer
  at that index. (\<open>nextIndex_mod\<close> and \<open>findFrom_index\<close> read \<open>next\<close> and the index as
  the numbers \<open>(head.Height + 1) mod |peers|\<close> and the first position of the producer.)
\<close>

theorem CheckAndPushNewBlock_producer:
  assumes "ParentHash (SignedHeader b) = Head (getHead (rt c))"
    and "\<not> (Height (getHead (rt c)) = getHeightFromTime (rt c) (Timestamp (SignedHeader b))
              \<and> Head (getHead (rt c)) = BlockHash (SignedHeader b))"
  shows "(Producer (SignedHeader b) \<notin> ID ` set (Servers (getPeers (rt c)))
            \<longrightarrow> CheckAndPushNewBlock e c b = (Some ErrUnknownProducer, c))
       \<and> (Producer (SignedHeader b) \<in> ID ` set (Servers (getPeers (rt c)))
            \<and> Inr (fst (Find (getPeers (rt c)) (Producer (SignedHeader b))))
                 \<noteq> nextIndex (getHead (rt c)) (word_of_nat (length (Servers (getPeers (rt c)))))
            \<longrightarrow> CheckAndPushNewBlock e c b = (Some ErrInvalidProducer, c))
       \<and> (fst (CheckAndPushNewBlock e c b) = None \<or> rt (snd (CheckAndPushNewBlock e c b)) \<noteq> rt c
            \<longrightarrow> Producer (SignedHeader b) \<in> ID ` set (Servers (getPeers (rt c)))
              \<and> Inr (fst (Find (getPeers (rt c)) (Producer (SignedHeader b))))
                   = nextIndex (getHead (rt c)) (word_of_nat (length (Servers (getPeers (rt c))))))"
proof (intro conjI impI)
  assume "Producer (SignedHeader b) \<notin> ID ` set (Servers (getPeers (rt c)))"
  then have "\<not> snd (Find (getPeers (rt c)) (Producer (SignedHeader b)))"
    by (simp add: Find_found)
  with assms show "CheckAndPushNewBlock e c b = (Some ErrUnknownProducer, c)"
    by (simp add: CheckAndPushNewBlock_cases Let_def)
next
  assume a: "Producer (SignedHeader b) \<in> ID ` set (Servers (getPeers (rt c)))
            \<and> Inr (fst (Find (getPeers (rt c)) (Producer (SignedHeader b))))
                 \<noteq> nextIndex (getHead (rt c)) (word_of_nat (length (Servers (getPeers (rt c)))))"
  then have "snd (Find (getPeers (rt c)) (Producer (SignedHeader b)))"
    by (simp add: Find_found)
  with a assms show "CheckAndPushNewBlock e c b = (Some ErrInvalidProducer, c)"
    by (simp add: CheckAndPushNewBlock_cases Let_def)
next
  assume p: "fst (CheckAndPushNewBlock e c b) = None \<or> rt (snd (CheckAndPushNewBlock e c b)) \<noteq> rt c"
  from CheckAndPushNewBlock_pushed [OF p assms(2)]
  show "Producer (SignedHeader b) \<in> ID ` set (Servers (getPeers (rt c)))"
    by (simp add: Find_found)
next
  assume p: "fst (CheckAndPushNewBlock e c b) = None \<or> rt (snd (CheckAndPushNewBlock e c b)) \<noteq> rt c"
  from CheckAndPushNewBlock_pushed [OF p assms(2)]
  show "Inr (fst (Find (getPeers (rt c)) (Producer (SignedHeader b))))
          = nextIndex (getHead (rt c)) (word_of_nat (length (Servers (getPeers (rt c)))))"
    by simp
qed

theorem CheckAndPushNewBlock_producer_witness:
  "CheckAndPushNewBlock exEnv exChain (exBlock ''Z'' 1 2 exPeriod) = (Some ErrUnknownProducer, exChain)
   \<and> CheckAndPushNewBlock exEnv exChain (exBlock ''A'' 1 2 exPeriod) = (Some ErrInvalidProducer, exChain)
   \<and> fst (CheckAndPushNewBlock exEnv exChain (exBlock ''B'' 1 2 exPeriod)) = None
   \<and> Inr (fst (Find (getPeers (rt exChain)) (Producer (SignedHeader (exBlock ''B'' 1 2 exPeriod)))))
        = nextIndex (getHead (rt exChain)) (word_of_nat (length (Servers (getPeers (rt exChain)))))"
proof -
  have par: "\<And>p. ParentHash (SignedHeader (exBlock p 1 2 exPeriod)) = Head (getHead (rt exChain))"
    by (simp add: ex_defs)
  have nd: "\<And>p. \<not> (Height (getHead (rt exChain))
                = getHeightFromTime (rt exChain) (Timestamp (SignedHeader (exBlock p 1 2 exPeriod)))
              \<and> Head (getHead (rt exChain)) = BlockHash (SignedHeader (exBlock p 1 2 exPeriod)))"
    by (simp add: ex_defs)
  have z: "Producer (SignedHeader (exBlock ''Z'' 1 2 exPeriod)) \<notin> ID ` set (Servers (getPeers (rt exChain)))"
    by (simp add: ex_defs)
  have a: "Producer (SignedHeader (exBlock ''A'' 1 2 exPeriod)) \<in> ID ` set (Servers (getPeers (rt exChain)))
     \<and> Inr (fst (Find (getPeers (rt exChain)) (Producer (SignedHeader (exBlock ''A'' 1 2 exPeriod)))))
         \<noteq> nextIndex (getHead (rt exChain)) (word_of_nat (length (Servers (getPeers (rt exChain)))))"
    by (simp add: ex_defs Find_def nextIndex_def rem32_def signed_modulo_int_def word_sless_alt)
  have b: "fst (CheckAndPushNewBlock exEnv exChain (exBlock ''B'' 1 2 exPeriod)) = None"
    by (simp add: CheckAndPushNewBlock_cases Let_def ex_defs Find_def nextIndex_def rem32_def
        signed_modulo_int_def pushBlock_def Update_def marshalBlock_def marshalState_def
        PutState_def Put_def word_sless_alt)
  from CheckAndPushNewBlock_producer [OF par nd, of "''Z''" exEnv] z
  have r1: "CheckAndPushNewBlock exEnv exChain (exBlock ''Z'' 1 2 exPeriod) = (Some ErrUnknownProducer, exChain)"
    by blast
  from CheckAndPushNewBlock_producer [OF par nd, of "''A''" exEnv] a
  have r2: "CheckAndPushNewBlock exEnv exChain (exBlock ''A'' 1 2 exPeriod) = (Some ErrInvalidProducer, exChain)"
    by blast
  from CheckAndPushNewBlock_producer [OF par nd, of "''B''" exEnv] b
  have r3: "Inr (fst (Find (getPeers (rt exChain)) (Producer (SignedHeader (exBlock ''B'' 1 2 exPeriod)))))
        = nextIndex (getHead (rt exChain)) (word_of_nat (length (Servers (getPeers (rt exChain)))))"
    by blast
  from r1 r2 b r3 show ?thesis by (intro conjI)
qed

section \<open>The head height\<close>









section \<open>Expired queries\<close>

text \<open>
  C5: for every signed ack header whose response timestamp maps to a height lower than
  \<open>head.Height - queryTTL\<close>, \<open>VerifyAndPushAckedQuery\<close> returns \<open>ErrQueryExpired\<close> and
  neither the store nor the query index is modified (the chain is returned as it was).
\<close>

theorem VerifyAndPushAckedQuery_expired:
  assumes "getHeightFromTime (rt c) (ResponseTimestamp (Response ack))
             <s Height (getHead (rt c)) - queryTTL (rt c)"
  shows "VerifyAndPushAckedQuery e c ack = (Some ErrQueryExpired, c)
         \<and> db (snd (VerifyAndPushAckedQuery e c ack)) = db c
         \<and> qi (snd (VerifyAndPushAckedQuery e c ack)) = qi c"
  using assms by (simp add: VerifyAndPushAckedQuery_def queryTimeIsExpired_def)

theorem VerifyAndPushAckedQuery_expired_witness:
  "getHeightFromTime (rt exChain20) (ResponseTimestamp (Response (exAck (9 * exPeriod) 7)))
     <s Height (getHead (rt exChain20)) - queryTTL (rt exChain20)
   \<and> VerifyAndPushAckedQuery exEnv exChain20 (exAck (9 * exPeriod) 7) = (Some ErrQueryExpired, exChain20)"
proof -
  have h: "getHeightFromTime (rt exChain20) (ResponseTimestamp (Response (exAck (9 * exPeriod) 7)))
     <s Height (getHead (rt exChain20)) - queryTTL (rt exChain20)"
    by (simp add: exChain20_def exAck_def exRuntime_def exPeriod_def getHeightFromTime_def getHead_def
        word_sless_alt)
  from VerifyAndPushAckedQuery_expired [OF h, of exEnv] h show ?thesis by blast
qed

section \<open>Fetching a block\<close>


lemma descending_path:
  "descending hn \<Longrightarrow> n \<in> set (pathToRoot hn) \<Longrightarrow> node_height n \<le>s node_height hn"
proof (induction hn rule: pathToRoot.induct)
  case (1 h k b p)
  show ?case
  proof (cases p)
    case None
    with "1.prems" show ?thesis by simp
  next
    case (Some q)
    show ?thesis
    proof (cases "n = BlockNode h k b p")
      case True
      then show ?thesis by simp
    next
      case False
      with "1.prems" Some have "n \<in> set (pathToRoot q)" "descending q" "node_height q <s h"
        by simp_all
      with "1.IH" [OF Some] have "node_height n \<le>s node_height q" by simp
      with \<open>node_height q <s h\<close> show ?thesis by simp
    qed
  qed
qed

lemma above_head_not_on_path:
  assumes "descending hn" "node_height hn <s height"
  shows "\<forall>n \<in> set (pathToRoot hn). node_height n \<noteq> height"
proof
  fix n
  assume "n \<in> set (pathToRoot hn)"
  then have "node_height n \<le>s node_height hn"
    using assms(1) by (rule descending_path [rotated])
  with assms(2) have "node_height n <s height" by simp
  then show "node_height n \<noteq> height" by auto
qed



section \<open>The query index and the store\<close>

lemma heightToKey_0: "heightToKey 0 = [0, 0, 0, 0]"
  by (simp add: heightToKey_def)

text \<open>
  A transaction of \<open>pushAckedQuery\<close> always reaches the query index and the commit. With
  a store that commits, the ack is then in the ack bucket of its height and in the query
  index. With a store that does not, the error is returned and the store is unchanged (as
  after every error of the two pushes), yet the query index holds the ack.
\<close>

lemma Get_insertKey: "Get (insertKey k v b) k' = (if k' = k then Some v else Get b k')"
  by (induction b) (auto simp add: Get_def)

lemma heightToKey_not_empty: "heightToKey h \<noteq> []"
  by (simp add: heightToKey_def)

lemma ensureHeight_ok:
  "\<exists>tx1 hb. ensureHeight tx (heightToKey h) = Inr (tx1, hb)
      \<and> (Get (heightIndexBucket tx) (heightToKey h) = Some hb \<or>
          Get (heightIndexBucket tx) (heightToKey h) = None
            \<and> hb = \<lparr>requestIndex = [], responseIndex = [], ackIndex = []\<rparr>)"
  by (auto simp add: ensureHeight_def CreateBucket_def heightToKey_not_empty split: option.splits)

lemma pushAckedQuery_committed:
  assumes "commit e = (\<lambda>d. None)"
  shows "fst (pushAckedQuery e c ack) = None
    \<and> (\<exists>hb. Get (heightIndexBucket (db (snd (pushAckedQuery e c ack))))
                (heightToKey (getHeightFromTime (rt c) (ResponseTimestamp (Response ack)))) = Some hb
             \<and> Get (ackIndex hb) (AckHash ack) = Some (EncAck ack))
    \<and> fst (getAck (qi (snd (pushAckedQuery e c ack)))
              (getHeightFromTime (rt c) (ResponseTimestamp (Response ack))) (AckHash ack)) \<noteq> None"
proof -
  let ?h = "getHeightFromTime (rt c) (ResponseTimestamp (Response ack))"
  obtain tx1 hb where eh: "ensureHeight (db c) (heightToKey ?h) = Inr (tx1, hb)"
    using ensureHeight_ok [of "db c" ?h] by blast
  show ?thesis
    using assms eh
    by (auto simp add: pushAckedQuery_def Let_def Update_def Put_def marshalAck_def storeHeight_def
        Get_insertKey addAck_def ensureEntry_def getAck_def split: option.splits)
qed


lemma pushAckedQuery_commit_fails:
  assumes "\<And>d. commit e d = Some err"
  shows "fst (pushAckedQuery e c ack) = Some err
    \<and> db (snd (pushAckedQuery e c ack)) = db c
    \<and> fst (getAck (qi (snd (pushAckedQuery e c ack)))
              (getHeightFromTime (rt c) (ResponseTimestamp (Response ack))) (AckHash ack)) \<noteq> None"
proof -
  let ?h = "getHeightFromTime (rt c) (ResponseTimestamp (Response ack))"
  obtain tx1 hb where eh: "ensureHeight (db c) (heightToKey ?h) = Inr (tx1, hb)"
    using ensureHeight_ok [of "db c" ?h] by blast
  show ?thesis
    using assms eh
    by (auto simp add: pushAckedQuery_def Let_def Update_def Put_def marshalAck_def storeHeight_def
        addAck_def ensureEntry_def getAck_def split: option.splits)
qed

lemma push_error_store_unchanged:
  "fst (pushAckedQuery e c ack) \<noteq> None \<Longrightarrow> db (snd (pushAckedQuery e c ack)) = db c"
  "fst (pushResponedQuery e c resp) \<noteq> None \<Longrightarrow> db (snd (pushResponedQuery e c resp)) = db c"
  by (auto simp add: pushAckedQuery_def pushResponedQuery_def Let_def Update_def marshalAck_def
      marshalResponse_def split: sum.splits prod.splits option.splits if_splits)

text \<open>
  C6, on the input where the claim fails: the store refuses the commit. The function given
  to \<open>Update\<close> has put the ack (the response) into the query index as its last step and
  returned \<open>nil\<close>; the commit fails, \<open>pushAckedQuery\<close> (\<open>pushResponedQuery\<close>) returns
  the error and the store is as before, without a bucket for the height, while the query
  index holds the ack (the response).
\<close>

theorem push_query_commit_failure:
  "fst (pushAckedQuery exEnvNoCommit exChain (exAck 0 7)) = Some ErrCommit
   \<and> db (snd (pushAckedQuery exEnvNoCommit exChain (exAck 0 7))) = db exChain
   \<and> Get (heightIndexBucket (db exChain)) (heightToKey 0) = None
   \<and> getAck (qi exChain) 0 7 = (None, Some ErrQueryNotCached)
   \<and> getAck (qi (snd (pushAckedQuery exEnvNoCommit exChain (exAck 0 7)))) 0 7
        = (Some (exAck 0 7), None)
   \<and> fst (pushResponedQuery exEnvNoCommit exChain (exResponse 0 8)) = Some ErrCommit
   \<and> db (snd (pushResponedQuery exEnvNoCommit exChain (exResponse 0 8))) = db exChain
   \<and> heightIndex (qi exChain) 0 = None
   \<and> map_option (\<lambda>en. responses en 8)
         (heightIndex (qi (snd (pushResponedQuery exEnvNoCommit exChain (exResponse 0 8)))) 0)
        = Some (Some (exResponse 0 8))"
  by (simp add: pushAckedQuery_def pushResponedQuery_def Let_def Update_def ensureHeight_def
      CreateBucket_def Get_def Put_def storeHeight_def marshalAck_def marshalResponse_def
      addAck_def addResponse_def ensureEntry_def getAck_def newQueryIndex_def
      exEnvNoCommit_def exEnv_def exChain_def exRuntime_def exAck_def exResponse_def exPeriod_def
      getHeightFromTime_def heightToKey_0)

section \<open>Loading a chain with a fork\<close>

text \<open>
  \<open>LoadChain\<close> starts from the empty block index and its loop adds nothing to it: at
  every block whose parent hash is not the hash of the block before, the loop stops with
  \<open>ErrParentNotFound\<close>.
\<close>

lemma loadBlocks_fork_fails:
  assumes "unmarshalBlock v = Inr b"
    and "ParentHash (SignedHeader b) \<noteq> node_hash l"
  shows "loadBlocks e newBlockIndex ((k, v) # kvs) r (Some l) nodes
           = (Some ErrParentNotFound, r, Some l, nodes)"
  using assms by (simp add: newBlockIndex_def lookupNode_def)

text \<open>
  C7, on the input where the claim fails: a store with the genesis block and two blocks
  that both name it as parent. At the second of them \<open>LoadChain\<close> looks up the hash of
  the block itself, in a block index that it never fills, and fails with
  \<open>ErrParentNotFound\<close> although the parent was loaded. The loop fails in the same way on
  a block index that holds the parent.
\<close>

theorem LoadChain_fork_parent_not_found:
  "fst (LoadChain exEnv exRuntime exForkDB) = Some ErrParentNotFound
   \<and> lookupNode (addBlock newBlockIndex exGenesisNode) (ParentHash (SignedHeader exBlockFork))
        = Some exGenesisNode
   \<and> fst (loadBlocks exEnv (addBlock newBlockIndex exGenesisNode) [(3, EncBlock exBlockFork)]
              exRuntime (Some (initBlockNode 1 exBlockA (Some exGenesisNode))) [])
        = Some ErrParentNotFound"
  by (simp add: LoadChain_def Let_def exForkDB_def exBlockA_def exBlockFork_def exGenesis_def
      exBlock_def exEnv_def exRuntime_def exPeers_def exPeriod_def exGenesisNode_def
      newBlockNode_def initBlockNode_def newBlockIndex_def newQueryIndex_def addBlock_def
      lookupNode_def setHead_def setGenesis_def getHeightFromTime_def)

section \<open>Fetching an ack from the store\<close>

text \<open>
  When the query index has no ack and the store holds a value that decodes, the loop of
  \<open>FetchAckedQuery\<close> never assigns the ack: whatever it returns, it is not that ack.
\<close>

lemma fetchAckLoop_keeps_nil_aux:
  assumes "fetchAckLoop tx height header i res = Some y"
  shows "\<forall>b v a. Get (heightIndexBucket tx) (heightToKey height) = Some b \<and>
           Get (ackIndex b) header = Some v \<and> unmarshalAck v = Inr a \<and> fst res = None
           \<longrightarrow> fst y = None"
  by (rule fetchAckLoop.raw_induct
        [where P = "\<lambda>tx height header i res y.
           \<forall>b v a. Get (heightIndexBucket tx) (heightToKey height) = Some b \<and>
             Get (ackIndex b) header = Some v \<and> unmarshalAck v = Inr a \<and> fst res = None
             \<longrightarrow> fst y = None", OF _ assms])
     (auto split: if_splits)

lemma fetchAckLoop_keeps_nil:
  assumes "fetchAckLoop tx height header i res = Some y"
    and "Get (heightIndexBucket tx) (heightToKey height) = Some b"
    and "Get (ackIndex b) header = Some v"
    and "unmarshalAck v = Inr a"
    and "fst res = None"
  shows "fst y = None"
  using fetchAckLoop_keeps_nil_aux [OF assms(1)] assms(2-5) by blast

lemma FetchAckedQuery_never_from_store:
  assumes "getAck (qi c) height header = (None, Some err)"
    and "Get (heightIndexBucket (db c)) (heightToKey height) = Some b"
    and "Get (ackIndex b) header = Some v"
    and "unmarshalAck v = Inr a"
  shows "FetchAckedQuery c height header \<noteq> Some (Some a', e')"
proof
  assume "FetchAckedQuery c height header = Some (Some a', e')"
  with assms(1) have "fetchAckLoop (db c) height header (height - queryTTL (rt c)) (None, None)
      = Some (Some a', e')"
    by (simp add: FetchAckedQuery_def)
  from fetchAckLoop_keeps_nil [OF this assms(2) assms(3) assms(4)] show False by simp
qed

lemma fetchAckLoop_exAckDB_step:
  "i \<le>s 0 \<Longrightarrow> fetchAckLoop exAckDB 0 7 i (None, None) = fetchAckLoop exAckDB 0 7 (i + 1) (None, None)"
  by (subst fetchAckLoop.simps) (simp add: exAckDB_def Get_def)

lemma fetchAckLoop_exAckDB_end:
  "\<not> i \<le>s 0 \<Longrightarrow> fetchAckLoop exAckDB 0 7 i res = Some res"
  by (subst fetchAckLoop.simps) simp

text \<open>
  C1, on the input where the claim fails: the store holds the ack with hash 7 in the ack
  bucket of height 0 and the query index does not hold it. \<open>FetchAckedQuery\<close> decodes
  the value in each of its eleven turns, assigns nothing because decoding succeeds, and
  returns a \<open>nil\<close> ack with a \<open>nil\<close> error.
\<close>

theorem FetchAckedQuery_stored_ack_not_returned:
  "Get (heightIndexBucket (db (exChain\<lparr>db := exAckDB\<rparr>))) (heightToKey 0) \<noteq> None
   \<and> map_option (\<lambda>hb. Get (ackIndex hb) 7)
         (Get (heightIndexBucket (db (exChain\<lparr>db := exAckDB\<rparr>))) (heightToKey 0))
        = Some (Some (EncAck (exAck 0 7)))
   \<and> getAck (qi (exChain\<lparr>db := exAckDB\<rparr>)) 0 7 = (None, Some ErrQueryNotCached)
   \<and> FetchAckedQuery (exChain\<lparr>db := exAckDB\<rparr>) 0 7 = Some (None, None)"
proof -
  have l: "fetchAckLoop exAckDB 0 7 (- 10) (None, None) = Some (None, None)"
    by (simp add: fetchAckLoop_exAckDB_step fetchAckLoop_exAckDB_end word_sle_eq)
  have g: "getAck (qi (exChain\<lparr>db := exAckDB\<rparr>)) 0 7 = (None, Some ErrQueryNotCached)"
    by (simp add: getAck_def exChain_def newQueryIndex_def)
  have f: "FetchAckedQuery (exChain\<lparr>db := exAckDB\<rparr>) 0 7 = Some (None, None)"
    using l g by (simp add: FetchAckedQuery_def exChain_def exRuntime_def)
  show ?thesis
    using f g by (simp add: exAckDB_def Get_def)
qed

end
